theory Spec2Isabelle
  imports Complex_Main
begin

section \<open>BottomNavigation: data model\<close>

text \<open>
  A shallow embedding of \<^verbatim>\<open>src/components/BottomNavigation.js\<close>. JavaScript
  numbers that hold indices are integers (\<open>findIndex\<close> may hand out \<open>-1\<close>);
  numbers that hold animated values or sizes are reals.
\<close>

record Route =
  key :: string
  title :: string
  icon :: string
  color :: "string option"

record NavigationState =
  index :: int
  routes :: "Route list"

text \<open>
  The props the logic reads. \<open>shifting\<close> is optional in the source (\<open>None\<close> is a value
  whose \<open>typeof\<close> is not \<open>'boolean'\<close>). The two callbacks belong to the host: a call
  of one is recorded as a \<open>host_call\<close>; \<open>has_onTabPress\<close> says whether the optional
  \<open>onTabPress\<close> was supplied.
\<close>

record Props =
  navigationState :: NavigationState
  shifting :: "bool option"
  has_onTabPress :: bool

datatype host_call = OnIndexChange int | OnTabPress "Route option"

record Layout =
  height :: real
  width :: real
  measured :: bool

text \<open>
  The component state. Each \<open>Animated.Value\<close> is the number it currently holds; the
  field \<open>index\<close> of the source's state is \<open>index_value\<close> here (the name \<open>index\<close>
  is the field of \<open>NavigationState\<close>).
\<close>

record State =
  tabs :: "real list"
  shifts :: "real list"
  index_value :: real
  ripple :: real
  layout :: Layout

definition MIN_RIPPLE_SCALE :: real where
  "MIN_RIPPLE_SCALE = 1 / 10"

section \<open>Array reads and \<open>findIndex\<close>\<close>

text \<open>A JavaScript array read: out of range it yields \<open>undefined\<close> (\<open>None\<close>).\<close>

definition js_nth :: "'a list \<Rightarrow> int \<Rightarrow> 'a option" where
  "js_nth xs i = (if 0 \<le> i \<and> i < int (length xs) then Some (xs ! nat i) else None)"

text \<open>
  \<open>Array.prototype.findIndex\<close>: scan from the left, return the position of the first
  element satisfying the predicate, \<open>-1\<close> when there is none.
\<close>

fun findIndex_from :: "int \<Rightarrow> ('a \<Rightarrow> bool) \<Rightarrow> 'a list \<Rightarrow> int" where
  "findIndex_from k P [] = - 1"
| "findIndex_from k P (x # xs) = (if P x then k else findIndex_from (k + 1) P xs)"

definition findIndex :: "('a \<Rightarrow> bool) \<Rightarrow> 'a list \<Rightarrow> int" where
  "findIndex P xs = findIndex_from 0 P xs"

section \<open>The shift amount\<close>

definition getShiftAmount :: "int \<Rightarrow> int \<Rightarrow> int \<Rightarrow> int" where
  "getShiftAmount activeIndex currentIndex numberOfItems =
     (if activeIndex < currentIndex then 2
      else if activeIndex > currentIndex then - 2
      else if activeIndex = currentIndex
        then (if currentIndex = 0 then 1
              else if currentIndex = numberOfItems - 1 then - 1
              else 0)
      else 0)"

section \<open>Constructor\<close>

definition constructor :: "Props \<Rightarrow> State" where
  "constructor props =
     (let rs = routes (navigationState props);
          idx = index (navigationState props)
      in \<lparr> tabs = map (\<lambda>i. if int i = idx then 1 else 0) [0..<length rs],
           shifts = map (\<lambda>i. real_of_int (getShiftAmount idx (int i) (int (length rs))))
                      [0..<length rs],
           index_value = real_of_int idx,
           ripple = MIN_RIPPLE_SCALE,
           layout = \<lparr> height = 0, width = 0, measured = False \<rparr> \<rparr>)"

section \<open>Reacting to a changed index\<close>

text \<open>
  What an \<open>Animated.timing\<close> is given: the animated value (by its place in the state;
  \<open>None\<close> when the array read \<open>this.state.tabs[i]\<close> is out of range) and the
  configuration.
\<close>

datatype animated_ref = TabValue nat | ShiftValue nat | RippleValue

definition value_ref :: "real list \<Rightarrow> (nat \<Rightarrow> animated_ref) \<Rightarrow> nat \<Rightarrow> animated_ref option" where
  "value_ref cells mk i = (if i < length cells then Some (mk i) else None)"

record timing =
  target :: "animated_ref option"
  toValue :: real
  duration :: nat
  useNativeDriver :: bool

text \<open>
  \<open>Animated.parallel([...]).start(callback)\<close>: the timings, in the order of the
  array, and the completion callback as a function on the state.
\<close>

record started_parallel =
  animations :: "timing list"
  callback :: "State \<Rightarrow> State"

text \<open>The body of the completion callback; \<open>idx\<close> is the index captured by the closure.\<close>

definition on_complete :: "int \<Rightarrow> State \<Rightarrow> State" where
  "on_complete idx s =
     s \<lparr> tabs := map (\<lambda>i. if int i = idx then 1 else 0) [0..<length (tabs s)],
         index_value := real_of_int idx,
         ripple := MIN_RIPPLE_SCALE \<rparr>"

definition componentDidUpdate ::
    "Props \<Rightarrow> Props \<Rightarrow> State \<Rightarrow> State \<times> started_parallel option" where
  "componentDidUpdate prevProps props s =
     (if index (navigationState prevProps) \<noteq> index (navigationState props) then
        (let rs = routes (navigationState props);
             idx = index (navigationState props);
             s1 = s \<lparr> ripple := MIN_RIPPLE_SCALE \<rparr>
         in (s1,
             Some \<lparr> animations =
                      map (\<lambda>i. \<lparr> target = value_ref (tabs s1) TabValue i,
                                 toValue = (if int i = idx then 1 else 0),
                                 duration = 200,
                                 useNativeDriver = True \<rparr>) [0..<length rs]
                      @ map (\<lambda>i. \<lparr> target = value_ref (shifts s1) ShiftValue i,
                                   toValue = real_of_int
                                     (getShiftAmount idx (int i) (int (length rs))),
                                   duration = 200,
                                   useNativeDriver = True \<rparr>) [0..<length rs]
                      @ [\<lparr> target = Some RippleValue,
                           toValue = 1,
                           duration = 300,
                           useNativeDriver = True \<rparr>],
                    callback = on_complete idx \<rparr>))
      else (s, None))"

section \<open>Handlers\<close>

definition handleLayout :: "real \<Rightarrow> real \<Rightarrow> State \<Rightarrow> State" where
  "handleLayout h w s = s \<lparr> layout := \<lparr> height = h, width = w, measured = True \<rparr> \<rparr>"

text \<open>The calls made to the host, in the order the handler makes them.\<close>

definition handleTabPress :: "Props \<Rightarrow> int \<Rightarrow> host_call list" where
  "handleTabPress props i =
     (if i \<noteq> index (navigationState props) then [OnIndexChange i] else [])
     @ (if has_onTabPress props
        then [OnTabPress (js_nth (routes (navigationState props)) i)]
        else [])"

definition jumpTo :: "Props \<Rightarrow> string \<Rightarrow> host_call list" where
  "jumpTo props k =
     [OnIndexChange (findIndex (\<lambda>route. key route = k) (routes (navigationState props)))]"

section \<open>Values computed by \<open>render\<close>\<close>

definition render_shifting :: "Props \<Rightarrow> bool" where
  "render_shifting props =
     (case shifting props of
        Some b \<Rightarrow> b
      | None \<Rightarrow> length (routes (navigationState props)) > 3)"

definition render_maxTabWidth :: "Props \<Rightarrow> real" where
  "render_maxTabWidth props =
     (if length (routes (navigationState props)) > 3 then 96 else 168)"

text \<open>
  \<open>layout.width / routes.length\<close> is a JavaScript division: by zero it gives an
  infinity or \<open>NaN\<close>, which \<open>Math.min\<close> treats as below.
\<close>

datatype js_number = Num real | PosInfinity | NegInfinity | NaN

definition js_divide :: "real \<Rightarrow> nat \<Rightarrow> js_number" where
  "js_divide x n =
     (if n \<noteq> 0 then Num (x / real n)
      else if x > 0 then PosInfinity
      else if x < 0 then NegInfinity
      else NaN)"

fun js_min :: "js_number \<Rightarrow> real \<Rightarrow> js_number" where
  "js_min (Num x) m = Num (min x m)"
| "js_min PosInfinity m = Num m"
| "js_min NegInfinity m = NegInfinity"
| "js_min NaN m = NaN"

definition render_tabWidth :: "Props \<Rightarrow> State \<Rightarrow> js_number" where
  "render_tabWidth props s =
     js_min (js_divide (width (layout s)) (length (routes (navigationState props))))
            (render_maxTabWidth props)"

datatype pointer_events = Auto | NoPointerEvents

definition render_pointerEvents :: "State \<Rightarrow> pointer_events" where
  "render_pointerEvents s = (if measured (layout s) then Auto else NoPointerEvents)"

section \<open>The component as a transition system\<close>

text \<open>
  One mounted component: its current props, its state, and (as a ghost field) every call
  it has made to the host so far.
\<close>

record Instance =
  cur_props :: Props
  cur_state :: State
  host_calls :: "host_call list"

definition mount :: "Props \<Rightarrow> Instance" where
  "mount p = \<lparr> cur_props = p, cur_state = constructor p, host_calls = [] \<rparr>"

text \<open>
  What can happen to a mounted component:
  \<^item> \<open>LayoutEvent h w\<close>: the root view reports its size, \<open>_handleLayout\<close> runs;
  \<^item> \<open>TabPress i\<close>: the touchable of route \<open>i\<close> is pressed, \<open>_handleTabPress\<close> runs.
    The touchables are children of the root view, so the press is delivered only when the
    root view's \<open>pointerEvents\<close> is \<open>'auto'\<close>;
  \<^item> \<open>JumpTo k\<close>: a scene calls \<open>jumpTo\<close>;
  \<^item> \<open>PropsChange p\<close>: the host renders the component with new props,
    \<open>componentDidUpdate\<close> runs;
  \<^item> \<open>AnimationEnd idx\<close>: the completion callback of a started plan runs, \<open>idx\<close> being
    the index its closure captured;
  \<^item> \<open>Frame ts ss r\<close>: the animation executor writes values into the animated cells.
  An event that cannot happen in the current state yields \<open>None\<close>.
\<close>

datatype event =
    LayoutEvent real real
  | TabPress nat
  | JumpTo string
  | PropsChange Props
  | AnimationEnd int
  | Frame "real list" "real list" real

fun step :: "Instance \<Rightarrow> event \<Rightarrow> Instance option" where
  "step c (LayoutEvent h w) = Some (c \<lparr> cur_state := handleLayout h w (cur_state c) \<rparr>)"
| "step c (TabPress i) =
     (if render_pointerEvents (cur_state c) = Auto
         \<and> i < length (routes (navigationState (cur_props c)))
      then Some (c \<lparr> host_calls := host_calls c @ handleTabPress (cur_props c) (int i) \<rparr>)
      else None)"
| "step c (JumpTo k) = Some (c \<lparr> host_calls := host_calls c @ jumpTo (cur_props c) k \<rparr>)"
| "step c (PropsChange p) =
     Some (c \<lparr> cur_props := p, cur_state := fst (componentDidUpdate (cur_props c) p (cur_state c)) \<rparr>)"
| "step c (AnimationEnd idx) = Some (c \<lparr> cur_state := on_complete idx (cur_state c) \<rparr>)"
| "step c (Frame ts ss r) =
     (if length ts = length (tabs (cur_state c)) \<and> length ss = length (shifts (cur_state c))
      then Some (c \<lparr> cur_state := (cur_state c) \<lparr> tabs := ts, shifts := ss, ripple := r \<rparr> \<rparr>)
      else None)"

fun run :: "Instance \<Rightarrow> event list \<Rightarrow> Instance option" where
  "run c [] = Some c"
| "run c (e # es) = (case step c e of None \<Rightarrow> None | Some c' \<Rightarrow> run c' es)"

fun is_layout :: "event \<Rightarrow> bool" where
  "is_layout (LayoutEvent h w) = True"
| "is_layout _ = False"

fun is_press :: "event \<Rightarrow> bool" where
  "is_press (TabPress i) = True"
| "is_press _ = False"

fun is_tab_press_call :: "host_call \<Rightarrow> bool" where
  "is_tab_press_call (OnTabPress r) = True"
| "is_tab_press_call _ = False"

section \<open>Example inputs\<close>

definition props_of :: "Route list \<Rightarrow> int \<Rightarrow> Props" where
  "props_of rs i =
     \<lparr> navigationState = \<lparr> index = i, routes = rs \<rparr>,
       shifting = None,
       has_onTabPress = False \<rparr>"

text \<open>The navigation state of \<^verbatim>\<open>example/src/BottomNavigationExample.js\<close>.\<close>

definition example_routes :: "Route list" where
  "example_routes =
     [\<lparr> key = ''music'', title = ''Music'', icon = ''queue-music'', color = Some ''#3F51B5'' \<rparr>,
      \<lparr> key = ''albums'', title = ''Albums'', icon = ''album'', color = Some ''#009688'' \<rparr>,
      \<lparr> key = ''recents'', title = ''Recents'', icon = ''history'', color = Some ''#795548'' \<rparr>,
      \<lparr> key = ''purchased'', title = ''Purchased'', icon = ''shopping-cart'',
        color = Some ''#607D8B'' \<rparr>]"

definition example_props :: "int \<Rightarrow> Props" where
  "example_props i = props_of example_routes i"

text \<open>Three routes with the keys \<open>a\<close>, \<open>b\<close>, \<open>c\<close>; two routes; five routes.\<close>

definition abc_routes :: "Route list" where
  "abc_routes =
     [\<lparr> key = ''a'', title = ''A'', icon = ''a'', color = None \<rparr>,
      \<lparr> key = ''b'', title = ''B'', icon = ''b'', color = None \<rparr>,
      \<lparr> key = ''c'', title = ''C'', icon = ''c'', color = None \<rparr>]"

definition two_routes :: "Route list" where
  "two_routes = take 2 example_routes"

definition five_routes :: "Route list" where
  "five_routes = abc_routes @ two_routes"

text \<open>
  The state of the example at index \<open>1\<close> with a ripple half way, and the state of the
  example with values an animation executor may have left in the cells.
\<close>

definition mid_flight :: State where
  "mid_flight = (constructor (example_props 1)) \<lparr> ripple := 1 / 2 \<rparr>"

definition leftover :: State where
  "leftover = (constructor (example_props 0))
       \<lparr> tabs := [3 / 10, 7 / 10, 1 / 5, 9 / 10], index_value := 7, ripple := 4 / 5 \<rparr>"

section \<open>Predicates of the specification\<close>

text \<open>An index is valid for the props when it is the position of a route.\<close>

definition valid_index :: "Props \<Rightarrow> int \<Rightarrow> bool" where
  "valid_index props i = (0 \<le> i \<and> i < int (length (routes (navigationState props))))"

section \<open>The shift amount: verification\<close>

text \<open>
  C1. For all integers \<open>a\<close>, \<open>c\<close> and every \<open>n \<ge> 1\<close>, the shift amount is \<open>2\<close> when
  \<open>a < c\<close>, \<open>-2\<close> when \<open>a > c\<close>, and for \<open>a = c\<close> it is \<open>1\<close> if \<open>c = 0\<close>, otherwise
  \<open>-1\<close> if \<open>c = n - 1\<close>, otherwise \<open>0\<close>; the five concrete cases of the specification
  hold.
\<close>

theorem getShiftAmount_spec:
  assumes "1 \<le> n"
  shows "(a < c \<longrightarrow> getShiftAmount a c n = 2)
       \<and> (a > c \<longrightarrow> getShiftAmount a c n = - 2)
       \<and> (a = c \<and> c = 0 \<longrightarrow> getShiftAmount a c n = 1)
       \<and> (a = c \<and> c \<noteq> 0 \<and> c = n - 1 \<longrightarrow> getShiftAmount a c n = - 1)
       \<and> (a = c \<and> c \<noteq> 0 \<and> c \<noteq> n - 1 \<longrightarrow> getShiftAmount a c n = 0)
       \<and> getShiftAmount 0 2 4 = 2
       \<and> getShiftAmount 2 0 4 = - 2
       \<and> getShiftAmount 0 0 4 = 1
       \<and> getShiftAmount 3 3 4 = - 1
       \<and> getShiftAmount 1 1 4 = 0"
  by (simp add: getShiftAmount_def)

theorem getShiftAmount_spec_witness:
  "(1::int) \<le> 4 \<and> getShiftAmount 3 3 4 = - 1 \<and> getShiftAmount 0 0 1 = 1
   \<and> getShiftAmount 0 2 4 = 2 \<and> getShiftAmount 2 0 4 = - 2 \<and> getShiftAmount 2 2 4 = 0"
  using getShiftAmount_spec [of 4 3 3] getShiftAmount_spec [of 1 0 0]
        getShiftAmount_spec [of 4 0 2] getShiftAmount_spec [of 4 2 0]
        getShiftAmount_spec [of 4 2 2]
  by simp

section \<open>The transition plan and its completion\<close>

lemma example_index [simp]: "index (navigationState (example_props i)) = i"
  by (simp add: example_props_def props_of_def)

lemma example_routes_of [simp]: "routes (navigationState (example_props i)) = example_routes"
  by (simp add: example_props_def props_of_def)

lemma example_length [simp]: "length example_routes = 4"
  by (simp add: example_routes_def)

lemma example_constructor_lengths:
  "length (tabs (constructor (example_props i))) = 4"
  "length (shifts (constructor (example_props i))) = 4"
  by (simp_all add: constructor_def Let_def)

lemma example_update_0_2:
  "componentDidUpdate (example_props 0) (example_props 2) (constructor (example_props 0))
     = (fst (componentDidUpdate (example_props 0) (example_props 2)
               (constructor (example_props 0))),
        Some (the (snd (componentDidUpdate (example_props 0) (example_props 2)
               (constructor (example_props 0))))))"
  by (simp add: componentDidUpdate_def Let_def)

text \<open>
  C2. When the index of the new props differs from the index of the previous props, the
  ripple is set to \<open>MIN_RIPPLE_SCALE\<close> at once, whatever it was, nothing else in the
  state changes, and one parallel plan is started: for every route index \<open>i\<close> a timing
  of \<open>tabs[i]\<close> toward \<open>1\<close> if \<open>i\<close> is the new index and \<open>0\<close> otherwise, over 200;
  for every route index \<open>i\<close> a timing of \<open>shifts[i]\<close> toward the shift amount of
  \<open>i\<close> for the new index, over 200; and a timing of the ripple toward \<open>1\<close> over
  300. The state may hold any number of cells: a route index that has a cell is given
  that cell, one beyond the cells is given the result of the out-of-range read.
\<close>

theorem componentDidUpdate_plan:
  assumes "index (navigationState prevProps) \<noteq> index (navigationState newProps)"
  shows "\<exists>p. componentDidUpdate prevProps newProps s
                = (s \<lparr> ripple := MIN_RIPPLE_SCALE \<rparr>, Some p)
     \<and> length (animations p) = 2 * length (routes (navigationState newProps)) + 1
     \<and> (\<forall>i < length (routes (navigationState newProps)).
          animations p ! i =
            \<lparr> target = (if i < length (tabs s) then Some (TabValue i) else None),
              toValue = (if int i = index (navigationState newProps) then 1 else 0),
              duration = 200, useNativeDriver = True \<rparr>)
     \<and> (\<forall>i < length (routes (navigationState newProps)).
          animations p ! (length (routes (navigationState newProps)) + i) =
            \<lparr> target = (if i < length (shifts s) then Some (ShiftValue i) else None),
              toValue = real_of_int
                (getShiftAmount (index (navigationState newProps)) (int i)
                   (int (length (routes (navigationState newProps))))),
              duration = 200, useNativeDriver = True \<rparr>)
     \<and> animations p ! (2 * length (routes (navigationState newProps))) =
            \<lparr> target = Some RippleValue, toValue = 1, duration = 300,
              useNativeDriver = True \<rparr>"
  using assms
  by (simp add: componentDidUpdate_def Let_def value_ref_def nth_append)

theorem componentDidUpdate_plan_witness:
  "ripple mid_flight = 1 / 2
   \<and> (\<exists>p. componentDidUpdate (example_props 1) (example_props 3) mid_flight
            = (mid_flight \<lparr> ripple := 1 / 10 \<rparr>, Some p)
       \<and> length (animations p) = 9
       \<and> animations p ! 3 =
            \<lparr> target = Some (TabValue 3), toValue = 1, duration = 200, useNativeDriver = True \<rparr>
       \<and> animations p ! 1 =
            \<lparr> target = Some (TabValue 1), toValue = 0, duration = 200, useNativeDriver = True \<rparr>
       \<and> animations p ! 7 =
            \<lparr> target = Some (ShiftValue 3), toValue = - 1, duration = 200,
              useNativeDriver = True \<rparr>
       \<and> animations p ! 8 =
            \<lparr> target = Some RippleValue, toValue = 1, duration = 300, useNativeDriver = True \<rparr>)
   \<and> length (tabs leftover) = 4
   \<and> (\<exists>q. componentDidUpdate (example_props 0) (props_of two_routes 1) leftover
            = (leftover \<lparr> ripple := 1 / 10 \<rparr>, Some q)
       \<and> length (animations q) = 5
       \<and> animations q ! 0 =
            \<lparr> target = Some (TabValue 0), toValue = 0, duration = 200, useNativeDriver = True \<rparr>
       \<and> animations q ! 1 =
            \<lparr> target = Some (TabValue 1), toValue = 1, duration = 200, useNativeDriver = True \<rparr>
       \<and> animations q ! 2 =
            \<lparr> target = Some (ShiftValue 0), toValue = - 2, duration = 200,
              useNativeDriver = True \<rparr>
       \<and> animations q ! 3 =
            \<lparr> target = Some (ShiftValue 1), toValue = - 1, duration = 200,
              useNativeDriver = True \<rparr>
       \<and> animations q ! 4 =
            \<lparr> target = Some RippleValue, toValue = 1, duration = 300, useNativeDriver = True \<rparr>)"
proof -
  have before: "ripple mid_flight = 1 / 2"
    by (simp add: mid_flight_def)
  have cells: "length (tabs mid_flight) = 4" "length (shifts mid_flight) = 4"
    by (simp_all add: mid_flight_def example_constructor_lengths)
  have h1: "index (navigationState (example_props 1)) \<noteq> index (navigationState (example_props 3))"
    by simp
  from componentDidUpdate_plan [OF h1, of mid_flight] obtain p where
    eq: "componentDidUpdate (example_props 1) (example_props 3) mid_flight
           = (mid_flight \<lparr> ripple := 1 / 10 \<rparr>, Some p)"
    and len: "length (animations p) = 9"
    and focus: "\<forall>i < 4. animations p ! i =
            \<lparr> target = (if i < 4 then Some (TabValue i) else None),
              toValue = (if int i = 3 then 1 else 0),
              duration = 200, useNativeDriver = True \<rparr>"
    and shift: "\<forall>i < 4. animations p ! (4 + i) =
            \<lparr> target = (if i < 4 then Some (ShiftValue i) else None),
              toValue = real_of_int (getShiftAmount 3 (int i) 4),
              duration = 200, useNativeDriver = True \<rparr>"
    and rip: "animations p ! 8 =
            \<lparr> target = Some RippleValue, toValue = 1, duration = 300, useNativeDriver = True \<rparr>"
    by (auto simp: cells MIN_RIPPLE_SCALE_def)
  from focus [rule_format, of 3] have f3: "animations p ! 3 =
      \<lparr> target = Some (TabValue 3), toValue = 1, duration = 200, useNativeDriver = True \<rparr>"
    by simp
  from focus [rule_format, of 1] have f1: "animations p ! 1 =
      \<lparr> target = Some (TabValue 1), toValue = 0, duration = 200, useNativeDriver = True \<rparr>"
    by simp
  from shift [rule_format, of 3] have s3: "animations p ! 7 =
      \<lparr> target = Some (ShiftValue 3), toValue = - 1, duration = 200, useNativeDriver = True \<rparr>"
    by (simp add: getShiftAmount_def)
  from eq len f3 f1 s3 rip have first:
    "\<exists>p. componentDidUpdate (example_props 1) (example_props 3) mid_flight
            = (mid_flight \<lparr> ripple := 1 / 10 \<rparr>, Some p)
       \<and> length (animations p) = 9
       \<and> animations p ! 3 =
            \<lparr> target = Some (TabValue 3), toValue = 1, duration = 200, useNativeDriver = True \<rparr>
       \<and> animations p ! 1 =
            \<lparr> target = Some (TabValue 1), toValue = 0, duration = 200, useNativeDriver = True \<rparr>
       \<and> animations p ! 7 =
            \<lparr> target = Some (ShiftValue 3), toValue = - 1, duration = 200,
              useNativeDriver = True \<rparr>
       \<and> animations p ! 8 =
            \<lparr> target = Some RippleValue, toValue = 1, duration = 300, useNativeDriver = True \<rparr>"
    by blast
  have cells2: "length (tabs leftover) = 4" "length (shifts leftover) = 4"
    by (simp_all add: leftover_def example_constructor_lengths)
  have two: "index (navigationState (props_of two_routes 1)) = 1"
    "length (routes (navigationState (props_of two_routes 1))) = 2"
    by (simp_all add: props_of_def two_routes_def)
  have h2: "index (navigationState (example_props 0))
              \<noteq> index (navigationState (props_of two_routes 1))"
    by (simp add: two)
  from componentDidUpdate_plan [OF h2, of leftover] obtain q where
    eq2: "componentDidUpdate (example_props 0) (props_of two_routes 1) leftover
           = (leftover \<lparr> ripple := 1 / 10 \<rparr>, Some q)"
    and len2: "length (animations q) = 5"
    and focus2: "\<forall>i < 2. animations q ! i =
            \<lparr> target = (if i < 4 then Some (TabValue i) else None),
              toValue = (if int i = 1 then 1 else 0),
              duration = 200, useNativeDriver = True \<rparr>"
    and shift2: "\<forall>i < 2. animations q ! (2 + i) =
            \<lparr> target = (if i < 4 then Some (ShiftValue i) else None),
              toValue = real_of_int (getShiftAmount 1 (int i) 2),
              duration = 200, useNativeDriver = True \<rparr>"
    and rip2: "animations q ! 4 =
            \<lparr> target = Some RippleValue, toValue = 1, duration = 300, useNativeDriver = True \<rparr>"
    by (auto simp: cells2 two MIN_RIPPLE_SCALE_def)
  from focus2 [rule_format, of 0] have g0: "animations q ! 0 =
      \<lparr> target = Some (TabValue 0), toValue = 0, duration = 200, useNativeDriver = True \<rparr>"
    by simp
  from focus2 [rule_format, of 1] have g1: "animations q ! 1 =
      \<lparr> target = Some (TabValue 1), toValue = 1, duration = 200, useNativeDriver = True \<rparr>"
    by simp
  from shift2 [rule_format, of 0] have g2: "animations q ! 2 =
      \<lparr> target = Some (ShiftValue 0), toValue = - 2, duration = 200, useNativeDriver = True \<rparr>"
    by (simp add: getShiftAmount_def)
  from shift2 [rule_format, of 1] have g3: "animations q ! 3 =
      \<lparr> target = Some (ShiftValue 1), toValue = - 1, duration = 200, useNativeDriver = True \<rparr>"
    by (simp add: getShiftAmount_def)
  from eq2 len2 g0 g1 g2 g3 rip2 have second:
    "\<exists>q. componentDidUpdate (example_props 0) (props_of two_routes 1) leftover
            = (leftover \<lparr> ripple := 1 / 10 \<rparr>, Some q)
       \<and> length (animations q) = 5
       \<and> animations q ! 0 =
            \<lparr> target = Some (TabValue 0), toValue = 0, duration = 200, useNativeDriver = True \<rparr>
       \<and> animations q ! 1 =
            \<lparr> target = Some (TabValue 1), toValue = 1, duration = 200, useNativeDriver = True \<rparr>
       \<and> animations q ! 2 =
            \<lparr> target = Some (ShiftValue 0), toValue = - 2, duration = 200,
              useNativeDriver = True \<rparr>
       \<and> animations q ! 3 =
            \<lparr> target = Some (ShiftValue 1), toValue = - 1, duration = 200,
              useNativeDriver = True \<rparr>
       \<and> animations q ! 4 =
            \<lparr> target = Some RippleValue, toValue = 1, duration = 300, useNativeDriver = True \<rparr>"
    by blast
  from before first cells2(1) second show ?thesis by blast
qed

text \<open>
  C3. When the plan started for a changed index reports completion, the callback sets
  the focus cell of the new index to \<open>1\<close> and every other focus cell to \<open>0\<close>, sets the
  index cell to the new index and the ripple to \<open>MIN_RIPPLE_SCALE\<close>, whatever state
  \<open>s'\<close> the animation executor left behind.
\<close>

theorem completion_convergence:
  assumes "componentDidUpdate prevProps newProps s = (s1, Some p)"
  shows "(\<forall>i < length (tabs s').
            tabs (callback p s') ! i
              = (if int i = index (navigationState newProps) then 1 else 0))
       \<and> length (tabs (callback p s')) = length (tabs s')
       \<and> index_value (callback p s') = real_of_int (index (navigationState newProps))
       \<and> ripple (callback p s') = MIN_RIPPLE_SCALE"
  using assms
  by (auto simp: componentDidUpdate_def Let_def on_complete_def split: if_splits)

theorem completion_convergence_witness:
  "\<exists>s1 p. componentDidUpdate (example_props 0) (example_props 2)
             (constructor (example_props 0)) = (s1, Some p)
     \<and> tabs leftover ! 2 = 1 / 5
     \<and> tabs (callback p leftover) ! 2 = 1
     \<and> tabs (callback p leftover) ! 0 = 0
     \<and> tabs (callback p leftover) ! 1 = 0
     \<and> tabs (callback p leftover) ! 3 = 0
     \<and> index_value (callback p leftover) = 2
     \<and> ripple (callback p leftover) = 1 / 10"
proof -
  let ?r = "componentDidUpdate (example_props 0) (example_props 2)
              (constructor (example_props 0))"
  have len: "length (tabs leftover) = 4"
    by (simp add: leftover_def)
  from completion_convergence [OF example_update_0_2, of leftover]
  have all: "\<forall>i < 4. tabs (callback (the (snd ?r)) leftover) ! i = (if int i = 2 then 1 else 0)"
    and idx: "index_value (callback (the (snd ?r)) leftover) = 2"
    and rip: "ripple (callback (the (snd ?r)) leftover) = 1 / 10"
    by (simp_all add: len MIN_RIPPLE_SCALE_def)
  from all have t2: "tabs (callback (the (snd ?r)) leftover) ! 2 = 1" by simp
  from all have t0: "tabs (callback (the (snd ?r)) leftover) ! 0 = 0" by simp
  from all have t1: "tabs (callback (the (snd ?r)) leftover) ! 1 = 0" by simp
  from all have t3: "tabs (callback (the (snd ?r)) leftover) ! 3 = 0" by simp
  have before: "tabs leftover ! 2 = 1 / 5"
    by (simp add: leftover_def)
  from example_update_0_2 before t2 t0 t1 t3 idx rip show ?thesis by blast
qed

text \<open>
  C6 (as stated, refuted). An update whose previous index equals the new index does not
  reset the ripple and starts no plan: at index \<open>1\<close>, with the ripple at one half, the
  state is handed back as it was.
\<close>

theorem no_change_counterexample:
  "componentDidUpdate (example_props 1) (example_props 1) mid_flight = (mid_flight, None)
   \<and> ripple mid_flight = 1 / 2
   \<and> MIN_RIPPLE_SCALE = 1 / 10"
  by (simp add: componentDidUpdate_def mid_flight_def MIN_RIPPLE_SCALE_def)

text \<open>
  C6 (amended). An update whose previous index equals the new index is a no-op: the
  ripple is not reset, no plan is started and the state is unchanged. Whenever a plan is
  started, its focus and shift targets are the values at which the constructor puts the
  cells for the new index.
\<close>

theorem no_change_is_noop:
  "(index (navigationState prevProps) = index (navigationState newProps) \<longrightarrow>
       componentDidUpdate prevProps newProps s = (s, None))
   \<and> (\<forall>s1 p i. componentDidUpdate prevProps newProps s = (s1, Some p)
          \<longrightarrow> i < length (routes (navigationState newProps))
          \<longrightarrow> toValue (animations p ! i) = tabs (constructor newProps) ! i
            \<and> toValue (animations p ! (length (routes (navigationState newProps)) + i))
                = shifts (constructor newProps) ! i)"
  by (auto simp: componentDidUpdate_def constructor_def Let_def nth_append split: if_splits)

theorem no_change_is_noop_witness:
  "componentDidUpdate (example_props 3) (example_props 3) leftover = (leftover, None)
   \<and> toValue (animations (the (snd (componentDidUpdate (example_props 0) (example_props 2)
         (constructor (example_props 0))))) ! 2) = tabs (constructor (example_props 2)) ! 2
   \<and> tabs (constructor (example_props 2)) ! 2 = 1"
proof -
  have same: "index (navigationState (example_props 3)) = index (navigationState (example_props 3))"
    by simp
  from no_change_is_noop [of "example_props 3" "example_props 3" leftover] same
  have a: "componentDidUpdate (example_props 3) (example_props 3) leftover = (leftover, None)"
    by blast
  have in_range: "(2::nat) < length (routes (navigationState (example_props 2)))"
    by simp
  from no_change_is_noop [of "example_props 0" "example_props 2" "constructor (example_props 0)"]
    example_update_0_2 in_range
  have b: "toValue (animations (the (snd (componentDidUpdate (example_props 0) (example_props 2)
         (constructor (example_props 0))))) ! 2) = tabs (constructor (example_props 2)) ! 2"
    by blast
  have c: "tabs (constructor (example_props 2)) ! 2 = 1"
    by (simp add: constructor_def Let_def)
  from a b c show ?thesis by simp
qed

section \<open>The handlers\<close>

lemma findIndex_from_absent:
  "\<forall>x \<in> set xs. \<not> P x \<Longrightarrow> findIndex_from k P xs = - 1"
  by (induction xs arbitrary: k) auto

lemma findIndex_from_present:
  "\<exists>x \<in> set xs. P x \<Longrightarrow>
     k \<le> findIndex_from k P xs \<and> findIndex_from k P xs < k + int (length xs)
     \<and> P (xs ! nat (findIndex_from k P xs - k))
     \<and> (\<forall>j < nat (findIndex_from k P xs - k). \<not> P (xs ! j))"
proof (induction xs arbitrary: k)
  case Nil
  then show ?case by simp
next
  case (Cons x xs)
  show ?case
  proof (cases "P x")
    case True
    then show ?thesis by simp
  next
    case False
    with Cons.prems have ex: "\<exists>y \<in> set xs. P y" by auto
    let ?r = "findIndex_from (k + 1) P xs"
    from Cons.IH [OF ex, of "k + 1"]
    have a: "k + 1 \<le> ?r" and b: "?r < k + 1 + int (length xs)"
      and c: "P (xs ! nat (?r - (k + 1)))"
      and d: "\<forall>j < nat (?r - (k + 1)). \<not> P (xs ! j)"
      by auto
    from a have n: "nat (?r - k) = Suc (nat (?r - (k + 1)))" by linarith
    have "\<forall>j < nat (?r - k). \<not> P ((x # xs) ! j)"
    proof (intro allI impI)
      fix j assume "j < nat (?r - k)"
      with n d False show "\<not> P ((x # xs) ! j)" by (cases j) auto
    qed
    with False a b c n show ?thesis by simp
  qed
qed

lemma abc_keys: "key ` set abc_routes = {''a'', ''b'', ''c''}"
  by (auto simp: abc_routes_def)

text \<open>
  C4 (as stated, refuted). For a key that no route has, \<open>jumpTo\<close> does not hold the
  call back: with the routes \<open>a\<close>, \<open>b\<close>, \<open>c\<close> and the key \<open>z\<close> it calls
  \<open>onIndexChange\<close> with \<open>-1\<close>, which is not a valid index.
\<close>

theorem jumpTo_absent_key_counterexample:
  "jumpTo (props_of abc_routes 0) ''z'' = [OnIndexChange (- 1)]
   \<and> \<not> valid_index (props_of abc_routes 0) (- 1)"
  by (simp add: jumpTo_def findIndex_def props_of_def abc_routes_def valid_index_def)

text \<open>
  C4 (amended). \<open>jumpTo\<close> calls \<open>onIndexChange\<close> exactly once, with the index found
  by a scan from the left: for a key that some route has, the valid index of the first
  route with that key (index \<open>1\<close> for the key \<open>b\<close> among \<open>a\<close>, \<open>b\<close>, \<open>c\<close>); for a
  key that no route has, \<open>-1\<close>. It does not validate the index before the call.
\<close>

theorem jumpTo_resolves:
  "(\<exists>i. jumpTo props k = [OnIndexChange i]
     \<and> (k \<in> key ` set (routes (navigationState props)) \<longrightarrow>
          valid_index props i
          \<and> key (routes (navigationState props) ! nat i) = k
          \<and> (\<forall>j < nat i. key (routes (navigationState props) ! j) \<noteq> k))
     \<and> (k \<notin> key ` set (routes (navigationState props)) \<longrightarrow> i = - 1))
   \<and> jumpTo (props_of abc_routes 0) ''b'' = [OnIndexChange 1]"
proof
  let ?rs = "routes (navigationState props)"
  let ?P = "\<lambda>route. key route = k"
  let ?i = "findIndex ?P ?rs"
  have call: "jumpTo props k = [OnIndexChange ?i]"
    by (simp add: jumpTo_def)
  have present: "valid_index props ?i \<and> key (?rs ! nat ?i) = k
      \<and> (\<forall>j < nat ?i. key (?rs ! j) \<noteq> k)" if "k \<in> key ` set ?rs"
  proof -
    from that have "\<exists>x \<in> set ?rs. ?P x" by auto
    from findIndex_from_present [OF this, of 0]
    show ?thesis by (simp add: findIndex_def valid_index_def)
  qed
  have absent: "?i = - 1" if "k \<notin> key ` set ?rs"
  proof -
    from that have "\<forall>x \<in> set ?rs. \<not> ?P x" by auto
    from findIndex_from_absent [OF this, of 0]
    show ?thesis by (simp add: findIndex_def)
  qed
  from call present absent
  show "\<exists>i. jumpTo props k = [OnIndexChange i]
     \<and> (k \<in> key ` set (routes (navigationState props)) \<longrightarrow>
          valid_index props i
          \<and> key (routes (navigationState props) ! nat i) = k
          \<and> (\<forall>j < nat i. key (routes (navigationState props) ! j) \<noteq> k))
     \<and> (k \<notin> key ` set (routes (navigationState props)) \<longrightarrow> i = - 1)"
    by blast
next
  show "jumpTo (props_of abc_routes 0) ''b'' = [OnIndexChange 1]"
    by (simp add: jumpTo_def findIndex_def props_of_def abc_routes_def)
qed

theorem jumpTo_resolves_witness:
  "(\<exists>i. jumpTo (props_of abc_routes 0) ''c'' = [OnIndexChange i]
       \<and> valid_index (props_of abc_routes 0) i
       \<and> key (abc_routes ! nat i) = ''c'')
   \<and> jumpTo (props_of abc_routes 0) ''z'' = [OnIndexChange (- 1)]"
proof -
  have rs: "routes (navigationState (props_of abc_routes 0)) = abc_routes"
    by (simp add: props_of_def)
  have inc: "''c'' \<in> key ` set (routes (navigationState (props_of abc_routes 0)))"
    by (simp add: rs abc_keys)
  have notz: "''z'' \<notin> key ` set (routes (navigationState (props_of abc_routes 0)))"
    by (simp add: rs abc_keys)
  from jumpTo_resolves [of "props_of abc_routes 0" "''c''"] inc
  have a: "\<exists>i. jumpTo (props_of abc_routes 0) ''c'' = [OnIndexChange i]
       \<and> valid_index (props_of abc_routes 0) i
       \<and> key (abc_routes ! nat i) = ''c''"
    unfolding rs by blast
  from jumpTo_resolves [of "props_of abc_routes 0" "''z''"] notz
  have b: "jumpTo (props_of abc_routes 0) ''z'' = [OnIndexChange (- 1)]"
    by blast
  from a b show ?thesis by blast
qed

text \<open>
  C5 (as stated, refuted). A press on the tab that is already active does not call
  \<open>onIndexChange\<close>: in the example at index \<open>1\<close>, a press on tab \<open>1\<close> makes no call.
\<close>

theorem handleTabPress_same_index_counterexample:
  "index (navigationState (example_props 1)) = 1
   \<and> handleTabPress (example_props 1) 1 = []"
  by (simp add: handleTabPress_def example_props_def props_of_def)

text \<open>
  C5 (amended). A press on tab \<open>i\<close> calls \<open>onIndexChange\<close> with \<open>i\<close>, and with nothing
  else, exactly when \<open>i\<close> differs from the index of the current navigation state.
\<close>

theorem handleTabPress_onIndexChange:
  "(OnIndexChange j \<in> set (handleTabPress props i)
      \<longleftrightarrow> (j = i \<and> i \<noteq> index (navigationState props)))
   \<and> (i \<noteq> index (navigationState props) \<longrightarrow>
        filter (\<lambda>h. \<not> is_tab_press_call h) (handleTabPress props i) = [OnIndexChange i])"
  by (auto simp: handleTabPress_def)

theorem handleTabPress_onIndexChange_witness:
  "OnIndexChange 2 \<in> set (handleTabPress (example_props 1) 2)
   \<and> OnIndexChange 1 \<notin> set (handleTabPress (example_props 1) 1)
   \<and> filter (\<lambda>h. \<not> is_tab_press_call h) (handleTabPress (example_props 1) 2)
       = [OnIndexChange 2]"
  using handleTabPress_onIndexChange [of 2 "example_props 1" 2]
        handleTabPress_onIndexChange [of 1 "example_props 1" 1]
  by simp

text \<open>
  C7. When the host supplied \<open>onTabPress\<close>, a press on the tab of route index \<open>i\<close>
  calls it exactly once, with the route at \<open>i\<close>, whether or not \<open>i\<close> is the active
  index; the call comes after the call of \<open>onIndexChange\<close>, if there is one.
\<close>

theorem handleTabPress_onTabPress:
  assumes "has_onTabPress props"
    and "i < length (routes (navigationState props))"
  shows "filter is_tab_press_call (handleTabPress props (int i))
           = [OnTabPress (Some (routes (navigationState props) ! i))]
       \<and> last (handleTabPress props (int i))
           = OnTabPress (Some (routes (navigationState props) ! i))"
  using assms by (simp add: handleTabPress_def js_nth_def)

theorem handleTabPress_onTabPress_witness:
  "handleTabPress ((example_props 1) \<lparr> has_onTabPress := True \<rparr>) 1
     = [OnTabPress (Some (example_routes ! 1))]
   \<and> filter is_tab_press_call (handleTabPress ((example_props 1) \<lparr> has_onTabPress := True \<rparr>) 2)
     = [OnTabPress (Some (example_routes ! 2))]"
proof -
  let ?p = "(example_props 1) \<lparr> has_onTabPress := True \<rparr>"
  have h: "has_onTabPress ?p" by simp
  have r1: "1 < length (routes (navigationState ?p))" by simp
  have r2: "2 < length (routes (navigationState ?p))" by simp
  have same: "filter (\<lambda>h. \<not> is_tab_press_call h) (handleTabPress ?p 1) = []"
    by (simp add: handleTabPress_def)
  from handleTabPress_onTabPress [OF h r1]
  have a: "filter is_tab_press_call (handleTabPress ?p 1) = [OnTabPress (Some (example_routes ! 1))]"
    by simp
  have "handleTabPress ?p 1 = filter is_tab_press_call (handleTabPress ?p 1)"
    using same by (simp add: filter_empty_conv filter_id_conv)
  with a have a': "handleTabPress ?p 1 = [OnTabPress (Some (example_routes ! 1))]"
    by simp
  from handleTabPress_onTabPress [OF h r2]
  have b: "filter is_tab_press_call (handleTabPress ?p 2) = [OnTabPress (Some (example_routes ! 2))]"
    by simp
  from a' b show ?thesis by simp
qed

section \<open>Values computed by \<open>render\<close>: verification\<close>

text \<open>
  C8. When \<open>shifting\<close> is not given as a boolean, the shifting mode is on exactly when
  there are more than three routes (off for three routes, on for four); when it is
  given, the given value is used.
\<close>

theorem render_shifting_default:
  "(shifting props = None \<longrightarrow>
      render_shifting props = (length (routes (navigationState props)) > 3))
   \<and> (shifting props = None \<and> length (routes (navigationState props)) = 3 \<longrightarrow>
        \<not> render_shifting props)
   \<and> (shifting props = None \<and> length (routes (navigationState props)) = 4 \<longrightarrow>
        render_shifting props)
   \<and> (shifting props = Some b \<longrightarrow> render_shifting props = b)"
  by (simp add: render_shifting_def)

theorem render_shifting_default_witness:
  "render_shifting (props_of abc_routes 0) = False
   \<and> render_shifting (example_props 0) = True
   \<and> render_shifting ((example_props 0) \<lparr> shifting := Some False \<rparr>) = False
   \<and> render_shifting ((props_of abc_routes 0) \<lparr> shifting := Some True \<rparr>) = True"
proof -
  have n3: "length (routes (navigationState (props_of abc_routes 0))) = 3"
    by (simp add: props_of_def abc_routes_def)
  have unset3: "shifting (props_of abc_routes 0) = None"
    by (simp add: props_of_def)
  have unset4: "shifting (example_props 0) = None"
    by (simp add: example_props_def props_of_def)
  from render_shifting_default [of "props_of abc_routes 0"] n3 unset3
  have a: "render_shifting (props_of abc_routes 0) = False"
    by simp
  from render_shifting_default [of "example_props 0"] unset4
  have b: "render_shifting (example_props 0) = True"
    by simp
  from render_shifting_default [of "(example_props 0) \<lparr> shifting := Some False \<rparr>" False]
  have c: "render_shifting ((example_props 0) \<lparr> shifting := Some False \<rparr>) = False"
    by simp
  from render_shifting_default [of "(props_of abc_routes 0) \<lparr> shifting := Some True \<rparr>" True]
  have d: "render_shifting ((props_of abc_routes 0) \<lparr> shifting := Some True \<rparr>) = True"
    by simp
  from a b c d show ?thesis by simp
qed

text \<open>
  C9. With at least one route, the maximal tab width is \<open>96\<close> for more than three
  routes and \<open>168\<close> otherwise, and the tab width is the smaller of the measured width
  divided by the number of routes and the maximal tab width: \<open>80\<close> for a width of
  \<open>400\<close> and five routes; the maximal tab width for two routes is \<open>168\<close>.
\<close>

theorem render_tabWidth_spec:
  assumes "1 \<le> length (routes (navigationState props))"
  shows "render_maxTabWidth props
           = (if length (routes (navigationState props)) > 3 then 96 else 168)
       \<and> render_tabWidth props s
           = Num (min (width (layout s) / real (length (routes (navigationState props))))
                      (render_maxTabWidth props))
       \<and> (length (routes (navigationState props)) = 5 \<and> width (layout s) = 400 \<longrightarrow>
            render_tabWidth props s = Num 80)
       \<and> (length (routes (navigationState props)) = 2 \<longrightarrow> render_maxTabWidth props = 168)"
  using assms
  by (cases "routes (navigationState props)")
     (simp_all add: render_maxTabWidth_def render_tabWidth_def js_divide_def)

theorem render_tabWidth_spec_witness:
  "render_tabWidth (props_of five_routes 0)
       (handleLayout 56 400 (constructor (props_of five_routes 0))) = Num 80
   \<and> render_maxTabWidth (props_of five_routes 0) = 96
   \<and> render_maxTabWidth (props_of two_routes 0) = 168"
proof -
  have n5: "length (routes (navigationState (props_of five_routes 0))) = 5"
    by (simp add: props_of_def five_routes_def abc_routes_def two_routes_def)
  have n2: "length (routes (navigationState (props_of two_routes 0))) = 2"
    by (simp add: props_of_def two_routes_def)
  have w: "width (layout (handleLayout 56 400 (constructor (props_of five_routes 0)))) = 400"
    by (simp add: handleLayout_def)
  have h5: "1 \<le> length (routes (navigationState (props_of five_routes 0)))"
    by (simp add: n5)
  have h2: "1 \<le> length (routes (navigationState (props_of two_routes 0)))"
    by (simp add: n2)
  from render_tabWidth_spec [OF h5, of "handleLayout 56 400 (constructor (props_of five_routes 0))"]
    n5 w
  have a: "render_tabWidth (props_of five_routes 0)
       (handleLayout 56 400 (constructor (props_of five_routes 0))) = Num 80"
    and b: "render_maxTabWidth (props_of five_routes 0) = 96"
    by simp_all
  from render_tabWidth_spec [OF h2, of undefined] n2
  have c: "render_maxTabWidth (props_of two_routes 0) = 168"
    by simp
  from a b c show ?thesis by simp
qed

section \<open>The transition system: verification\<close>

lemma step_measured:
  "step c e = Some c' \<Longrightarrow>
     measured (layout (cur_state c')) = (measured (layout (cur_state c)) \<or> is_layout e)"
  by (cases e)
     (auto simp: handleLayout_def componentDidUpdate_def on_complete_def Let_def
           split: if_splits)

lemma run_measured:
  "run c evs = Some c' \<Longrightarrow>
     measured (layout (cur_state c'))
       = (measured (layout (cur_state c)) \<or> (\<exists>e \<in> set evs. is_layout e))"
proof (induction evs arbitrary: c)
  case Nil
  then show ?case by simp
next
  case (Cons e es)
  then obtain c1 where s: "step c e = Some c1" and r: "run c1 es = Some c'"
    by (auto split: option.splits)
  from step_measured [OF s] Cons.IH [OF r] show ?case by auto
qed

lemma run_append:
  "run c (xs @ ys) = (case run c xs of None \<Rightarrow> None | Some c' \<Rightarrow> run c' ys)"
  by (induction xs arbitrary: c) (auto split: option.splits)

lemma press_needs_measured:
  "step c e = Some c' \<Longrightarrow> is_press e \<Longrightarrow> measured (layout (cur_state c))"
  by (cases e) (auto simp: render_pointerEvents_def split: if_splits)

lemma step_tab_press_calls:
  "step c e = Some c' \<Longrightarrow> \<not> is_press e \<Longrightarrow>
     filter is_tab_press_call (host_calls c') = filter is_tab_press_call (host_calls c)"
  by (cases e) (auto simp: jumpTo_def split: if_splits)

lemma run_tab_press_calls:
  "run c evs = Some c' \<Longrightarrow> \<forall>e \<in> set evs. \<not> is_press e \<Longrightarrow>
     filter is_tab_press_call (host_calls c') = filter is_tab_press_call (host_calls c)"
proof (induction evs arbitrary: c)
  case Nil
  then show ?case by simp
next
  case (Cons e es)
  then obtain c1 where s: "step c e = Some c1" and r: "run c1 es = Some c'"
    by (auto split: option.splits)
  from Cons.prems have "\<not> is_press e" and "\<forall>x \<in> set es. \<not> is_press x" by auto
  with step_tab_press_calls [OF s] Cons.IH [OF r] show ?case by simp
qed

lemma mount_not_measured: "\<not> measured (layout (cur_state (mount p)))"
  by (simp add: mount_def constructor_def Let_def)

lemma press_after_layout:
  assumes "run (mount p) (pre @ e # post) = Some c" and "is_press e"
  shows "\<exists>l \<in> set pre. is_layout l"
proof -
  from assms(1) obtain c1 c2 where pre: "run (mount p) pre = Some c1"
    and s: "step c1 e = Some c2"
    by (auto simp: run_append split: option.splits)
  from press_needs_measured [OF s assms(2)] run_measured [OF pre]
  show ?thesis by (simp add: mount_not_measured)
qed

text \<open>
  C10. A component starts unmeasured, and its root view takes pointer events only when
  measured. So in every run from mounting: the layout is measured exactly when a layout
  callback has happened (it is never reset); every tab press comes after a layout
  callback; and as long as no layout callback has happened, no call of \<open>onTabPress\<close>
  has been made.
\<close>

theorem no_press_before_layout:
  assumes "run (mount p) evs = Some c"
  shows "(measured (layout (cur_state c)) \<longleftrightarrow> (\<exists>e \<in> set evs. is_layout e))
       \<and> (\<forall>pre e post. evs = pre @ e # post \<longrightarrow> is_press e
            \<longrightarrow> (\<exists>l \<in> set pre. is_layout l))
       \<and> ((\<forall>e \<in> set evs. \<not> is_layout e)
            \<longrightarrow> (\<forall>e \<in> set evs. \<not> is_press e)
              \<and> (\<forall>h \<in> set (host_calls c). \<not> is_tab_press_call h))"
proof (intro conjI)
  from run_measured [OF assms]
  show "measured (layout (cur_state c)) \<longleftrightarrow> (\<exists>e \<in> set evs. is_layout e)"
    by (simp add: mount_not_measured)
next
  show ordered: "\<forall>pre e post. evs = pre @ e # post \<longrightarrow> is_press e
      \<longrightarrow> (\<exists>l \<in> set pre. is_layout l)"
    using assms press_after_layout by blast
  show "(\<forall>e \<in> set evs. \<not> is_layout e)
      \<longrightarrow> (\<forall>e \<in> set evs. \<not> is_press e)
        \<and> (\<forall>h \<in> set (host_calls c). \<not> is_tab_press_call h)"
  proof
    assume nolayout: "\<forall>e \<in> set evs. \<not> is_layout e"
    have nopress: "\<forall>e \<in> set evs. \<not> is_press e"
    proof
      fix e assume "e \<in> set evs"
      then obtain pre post where split: "evs = pre @ e # post"
        by (auto simp: in_set_conv_decomp)
      show "\<not> is_press e"
      proof
        assume "is_press e"
        with ordered split obtain l where "l \<in> set pre" "is_layout l" by blast
        with split nolayout show False by auto
      qed
    qed
    from run_tab_press_calls [OF assms nopress]
    have "filter is_tab_press_call (host_calls c) = []" by (simp add: mount_def)
    then have "\<forall>h \<in> set (host_calls c). \<not> is_tab_press_call h"
      by (simp add: filter_empty_conv)
    with nopress show "(\<forall>e \<in> set evs. \<not> is_press e)
        \<and> (\<forall>h \<in> set (host_calls c). \<not> is_tab_press_call h)"
      by simp
  qed
qed

theorem no_press_before_layout_witness:
  "(\<exists>c. run (mount (example_props 0)) [JumpTo ''albums'', LayoutEvent 56 400, TabPress 1]
          = Some c
      \<and> measured (layout (cur_state c))
      \<and> host_calls c = [OnIndexChange 1, OnIndexChange 1])
   \<and> (\<exists>c. run (mount (example_props 0)) [JumpTo ''albums'', PropsChange (example_props 1)]
          = Some c
      \<and> \<not> measured (layout (cur_state c)))
   \<and> run (mount (example_props 0)) [JumpTo ''albums'', TabPress 1] = None"
proof -
  let ?evs = "[JumpTo ''albums'', LayoutEvent 56 400, TabPress 1]"
  let ?evs2 = "[JumpTo ''albums'', PropsChange (example_props 1)]"
  have "\<exists>c. run (mount (example_props 0)) ?evs = Some c
      \<and> host_calls c = [OnIndexChange 1, OnIndexChange 1]"
    by (simp add: mount_def handleLayout_def render_pointerEvents_def jumpTo_def
          handleTabPress_def findIndex_def example_routes_def example_props_def
          props_of_def)
  then obtain c where r: "run (mount (example_props 0)) ?evs = Some c"
    and calls: "host_calls c = [OnIndexChange 1, OnIndexChange 1]"
    by blast
  from no_press_before_layout [OF r] have m: "measured (layout (cur_state c))"
    by simp
  have "\<exists>c. run (mount (example_props 0)) ?evs2 = Some c"
    by simp
  then obtain c2 where r2: "run (mount (example_props 0)) ?evs2 = Some c2"
    by blast
  from no_press_before_layout [OF r2] have m2: "\<not> measured (layout (cur_state c2))"
    by simp
  have blocked: "run (mount (example_props 0)) [JumpTo ''albums'', TabPress 1] = None"
    by (simp add: mount_def render_pointerEvents_def constructor_def Let_def)
  from r calls m r2 m2 blocked show ?thesis by blast
qed

end
